theory Spec2Isabelle
  imports Complex_Main "HOL-Library.Char_ord" "HOL-Library.List_Lexorder"
begin

section \<open>The dashboard script app.py as HOL functions\<close>

text \<open>
  The repository is one Streamlit script, \<^verbatim>\<open>app.py\<close>. It loads three CSV files into
  pandas tables, derives a few numbers and emits a page, widget after widget. The
  embedding follows the script top to bottom:
  \<^item> a table is a record of its column names and its rows, a cell is an integer, a
    string or the missing value (cells holding decimal fractions or booleans are outside
    the model);
  \<^item> whatever the script raises is a value \<open>Inl e\<close> of a sum type;
  \<^item> the page is the list of widgets emitted so far together with the way the run
    ended (finished, stopped by \<^verbatim>\<open>st.stop()\<close>, or ended by an uncaught exception);
  \<^item> every quotient the script computes in floating point is the exact rational here
    (rounding is not modelled).
  Pictographs outside ASCII that the script puts in front of its messages are left out
  of the message strings.
\<close>

subsection \<open>Cells, tables, exceptions\<close>

datatype cell = CInt int | CStr string | NaN

datatype error = OSError | ParserError | KeyError | ValueError | TypeError | ZeroDivisionError

record DataFrame =
  columns :: "string list"
  rows :: "cell list list"

text \<open>\<^verbatim>\<open>pd.DataFrame()\<close>: no column, no row.\<close>

definition pd_DataFrame :: DataFrame where
  "pd_DataFrame = \<lparr>columns = [], rows = []\<rparr>"

text \<open>\<^verbatim>\<open>df.empty\<close> holds when either axis has length zero; \<^verbatim>\<open>len(df)\<close> counts rows.\<close>

definition empty :: "DataFrame \<Rightarrow> bool" where
  "empty df = (rows df = [] \<or> columns df = [])"

definition len :: "DataFrame \<Rightarrow> nat" where
  "len df = length (rows df)"

text \<open>
  The cell of a row under a column name. A row shorter than the header reads as
  missing there, as \<^verbatim>\<open>read_csv\<close> pads it.
\<close>

definition cell_of :: "string list \<Rightarrow> cell list \<Rightarrow> string \<Rightarrow> cell" where
  "cell_of cols r c = (case map_of (zip cols r) c of Some v \<Rightarrow> v | None \<Rightarrow> NaN)"

text \<open>\<^verbatim>\<open>df[c]\<close>: the column as a list of cells, KeyError for a name the table lacks.\<close>

definition getitem :: "DataFrame \<Rightarrow> string \<Rightarrow> error + cell list" where
  "getitem df c =
     (if c \<in> set (columns df) then Inr (map (\<lambda>r. cell_of (columns df) r c) (rows df))
      else Inl KeyError)"

text \<open>
  Elementwise \<^verbatim>\<open>==\<close>: a missing value equals nothing, itself included, and values of
  different kinds differ.
\<close>

fun cell_eq :: "cell \<Rightarrow> cell \<Rightarrow> bool" where
  "cell_eq (CInt a) (CInt b) = (a = b)"
| "cell_eq (CStr a) (CStr b) = (a = b)"
| "cell_eq _ _ = False"

definition series_eq :: "cell list \<Rightarrow> cell \<Rightarrow> bool list" where
  "series_eq s v = map (\<lambda>c. cell_eq c v) s"

text \<open>\<^verbatim>\<open>.sum()\<close> of a boolean series: the number of True entries.\<close>

fun sum_bool :: "bool list \<Rightarrow> int" where
  "sum_bool [] = 0"
| "sum_bool (b # bs) = (if b then 1 else 0) + sum_bool bs"

subsection \<open>Loading (lines 13 to 28)\<close>

text \<open>
  \<^verbatim>\<open>
  def load_csv(path):
      try:
          return pd.read_csv(path)
      except:
          return pd.DataFrame()
  \<close>
  The reader \<^verbatim>\<open>pd.read_csv\<close> and the file system behind it are not part of the
  repository: the reader is a parameter, any function from a path to a table or an
  exception. The cache decorator only remembers results and is left out.
\<close>

definition load_csv :: "(string \<Rightarrow> error + DataFrame) \<Rightarrow> string \<Rightarrow> error + DataFrame" where
  "load_csv read_csv path =
     (case read_csv path of Inr df \<Rightarrow> Inr df | Inl e \<Rightarrow> Inr pd_DataFrame)"

subsection \<open>Traffic mix (lines 46 to 57)\<close>

definition total :: "DataFrame \<Rightarrow> int" where
  "total df_full = int (len df_full)"

definition count_ones :: "DataFrame \<Rightarrow> string \<Rightarrow> error + int" where
  "count_ones df c =
     (case getitem df c of Inl e \<Rightarrow> Inl e | Inr s \<Rightarrow> Inr (sum_bool (series_eq s (CInt 1))))"

definition total_anoms :: "DataFrame \<Rightarrow> DataFrame \<Rightarrow> error + int" where
  "total_anoms df_full df_expl =
     (if ''predicted'' \<in> set (columns df_full) then count_ones df_full ''predicted''
      else if ''classification'' \<in> set (columns df_full) then count_ones df_full ''classification''
      else Inr (int (len df_expl)))"

definition total_norms :: "int \<Rightarrow> int \<Rightarrow> int" where
  "total_norms tot anoms = tot - anoms"

text \<open>
  True division. \<open>Inl ZeroDivisionError\<close> stands for what a zero divisor gives:
  Python's exception for its own integers, a non-finite float for NumPy's.
\<close>

definition truediv :: "int \<Rightarrow> int \<Rightarrow> error + rat" where
  "truediv a b = (if b = 0 then Inl ZeroDivisionError else Inr (of_int a / of_int b))"

definition anom_rate :: "int \<Rightarrow> int \<Rightarrow> error + rat" where
  "anom_rate tot anoms =
     (if tot > 0 then (case truediv anoms tot of Inl e \<Rightarrow> Inl e | Inr q \<Rightarrow> Inr (q * 100))
      else Inr 0)"

text \<open>The four numbers of the traffic summary, or the exception that kept them from being computed.\<close>

record summary =
  s_total :: int
  s_anoms :: int
  s_norms :: int
  s_rate :: rat

definition summarize :: "DataFrame \<Rightarrow> DataFrame \<Rightarrow> error + summary" where
  "summarize df_full df_expl =
     (case total_anoms df_full df_expl of
        Inl e \<Rightarrow> Inl e
      | Inr a \<Rightarrow>
         (case anom_rate (total df_full) a of
            Inl e \<Rightarrow> Inl e
          | Inr r \<Rightarrow> Inr \<lparr>s_total = total df_full, s_anoms = a,
                          s_norms = total_norms (total df_full) a, s_rate = r\<rparr>))"

subsection \<open>The page\<close>

text \<open>
  A metric carries the number it shows (the script formats it with thousands separators
  or two decimals); a chart carries the data handed to the plotting library, which is a
  view and draws what it is given.
\<close>

datatype mvalue = Count int | Percent rat

datatype chart =
    Pie "(string \<times> int) list"
  | Scatter "(cell \<times> cell) list"
  | Heatmap "string list" "string list" "nat list list"

datatype widget =
    Title string | Caption string | Subheader string | Divider
  | Error string | Warning string | Info string | Success string
  | Metric string mvalue | PlotlyChart chart | Write string

datatype status = Finished | Stopped | Raised error

type_synonym page = "widget list \<times> status"

text \<open>
  Sections run one after the other; a section that stops the script or raises ends the
  run, and what was emitted before stays on the page.
\<close>

fun run :: "page list \<Rightarrow> page" where
  "run [] = ([], Finished)"
| "run (p # ps) =
     (case snd p of Finished \<Rightarrow> (fst p @ fst (run ps), snd (run ps)) | _ \<Rightarrow> p)"

definition header :: page where
  "header =
     ([Title ''MSME Cybersecurity Insights'',
       Caption ''Business-friendly security insights based on anomaly detection + GenAI explanations''],
      Finished)"

subsection \<open>Validation (lines 33 to 41)\<close>

definition validate :: "DataFrame \<Rightarrow> DataFrame \<Rightarrow> DataFrame \<Rightarrow> page" where
  "validate df_full df_expl df_pred =
     (if empty df_full then ([Error ''Could not load full dataset.''], Stopped)
      else
        ((if empty df_expl
          then [Warning ''No explained anomalies file loaded. Some insights may be missing.'']
          else []) @
         (if empty df_pred
          then [Warning ''No prediction results file loaded. Accuracy analysis may be missing.'']
          else []),
         Finished))"

subsection \<open>Metrics and traffic chart (lines 62 to 83)\<close>

definition traffic_mix :: "DataFrame \<Rightarrow> DataFrame \<Rightarrow> page" where
  "traffic_mix df_full df_expl =
     (case summarize df_full df_expl of
        Inl e \<Rightarrow> ([], Raised e)
      | Inr s \<Rightarrow>
          ([Metric ''Total Requests'' (Count (s_total s)),
            Metric ''Detected Anomalies'' (Count (s_anoms s)),
            Metric ''Anomaly Rate'' (Percent (s_rate s)),
            Divider,
            Subheader ''Traffic Mix'',
            PlotlyChart (Pie [(''Normal'', s_norms s), (''Anomalous'', s_anoms s)]),
            Divider],
           Finished))"

subsection \<open>Model accuracy (lines 88 to 129)\<close>

text \<open>\<^verbatim>\<open>df_pred[["true_label", "predicted"]]\<close>: the two columns, row by row.\<close>

definition acc_frame :: "DataFrame \<Rightarrow> error + (cell \<times> cell) list" where
  "acc_frame df =
     (case getitem df ''true_label'' of
        Inl e \<Rightarrow> Inl e
      | Inr t \<Rightarrow> (case getitem df ''predicted'' of Inl e \<Rightarrow> Inl e | Inr p \<Rightarrow> Inr (zip t p)))"

text \<open>\<^verbatim>\<open>(acc_df["true_label"] == acc_df["predicted"]).mean() * 100\<close>\<close>

definition accuracy :: "(cell \<times> cell) list \<Rightarrow> error + rat" where
  "accuracy acc_df =
     (let hits = map (\<lambda>(t, p). cell_eq t p) acc_df in
      case truediv (sum_bool hits) (int (length hits)) of
        Inl e \<Rightarrow> Inl e
      | Inr m \<Rightarrow> Inr (m * 100))"

text \<open>
  \<^verbatim>\<open>acc_df.sample(n)\<close> draws \<open>n\<close> rows without replacement and refuses \<open>n\<close> beyond the
  row count. The random source is a list of numbers: each draw takes the row at the next
  number (modulo what is left) and removes it.
\<close>

fun draw :: "nat list \<Rightarrow> nat \<Rightarrow> 'a list \<Rightarrow> 'a list" where
  "draw seeds 0 xs = []"
| "draw seeds (Suc k) [] = []"
| "draw seeds (Suc k) (x # xs) =
     (let i = (case seeds of [] \<Rightarrow> 0 | s # _ \<Rightarrow> s mod Suc (length xs))
      in (x # xs) ! i # draw (tl seeds) k (take i (x # xs) @ drop (Suc i) (x # xs)))"

definition sample :: "nat list \<Rightarrow> nat \<Rightarrow> 'a list \<Rightarrow> error + 'a list" where
  "sample seeds n xs = (if n > length xs then Inl ValueError else Inr (draw seeds n xs))"

text \<open>
  \<^verbatim>\<open>px.scatter(sample, x="true_label", y="predicted", trendline="ols")\<close>: the
  plotting library fits the trend line when the sample has more than one row with both
  labels present, and the fit needs numbers: with a text label in the sample it raises
  ValueError, and the chart is never drawn. With at most one complete row there is no fit
  and the chart is drawn as it is. (The fitted line itself is floating point and is not
  part of the chart's data here. Text that reads as a number, and a column that mixes
  numbers and text, are outside the model.)
\<close>

fun is_text :: "cell \<Rightarrow> bool" where
  "is_text (CStr s) = True"
| "is_text _ = False"

definition complete :: "cell \<times> cell \<Rightarrow> bool" where
  "complete tp = (fst tp \<noteq> NaN \<and> snd tp \<noteq> NaN)"

definition px_scatter :: "(cell \<times> cell) list \<Rightarrow> error + chart" where
  "px_scatter smp =
     (if 1 < length (filter complete smp) \<and> list_ex (\<lambda>tp. is_text (fst tp) \<or> is_text (snd tp)) smp
      then Inl ValueError
      else Inr (Scatter smp))"

text \<open>
  \<^verbatim>\<open>confusion_matrix(y_true, y_pred)\<close> of scikit-learn, called without \<^verbatim>\<open>labels=\<close>:
  the labels are the distinct values found in the two columns, sorted; the matrix has
  one row and one column per label found, and cell (i, j) counts the rows whose true
  label is the i-th and whose predicted label is the j-th. The labels are all numbers
  or all text; a missing value, or numbers in one place and text in another, is refused
  with ValueError.
\<close>

fun labels_of :: "cell list \<Rightarrow> error + int list" where
  "labels_of [] = Inr []"
| "labels_of (CInt n # cs) = (case labels_of cs of Inl e \<Rightarrow> Inl e | Inr ns \<Rightarrow> Inr (n # ns))"
| "labels_of (_ # cs) = Inl ValueError"

fun texts_of :: "cell list \<Rightarrow> error + string list" where
  "texts_of [] = Inr []"
| "texts_of (CStr s # cs) = (case texts_of cs of Inl e \<Rightarrow> Inl e | Inr ss \<Rightarrow> Inr (s # ss))"
| "texts_of (_ # cs) = Inl ValueError"

definition unique_labels :: "'a::linorder list \<Rightarrow> 'a list \<Rightarrow> 'a list" where
  "unique_labels y_true y_pred = sort (remdups (y_true @ y_pred))"

definition count_matrix :: "'a::linorder list \<Rightarrow> 'a list \<Rightarrow> nat list list" where
  "count_matrix y_true y_pred =
     (let labels = unique_labels y_true y_pred in
      map (\<lambda>a. map (\<lambda>b. length (filter (\<lambda>tp. tp = (a, b)) (zip y_true y_pred))) labels) labels)"

definition confusion_matrix :: "cell list \<Rightarrow> cell list \<Rightarrow> error + nat list list" where
  "confusion_matrix t p =
     (case labels_of t of
        Inr y_true \<Rightarrow>
         (case labels_of p of
            Inl e \<Rightarrow> Inl e
          | Inr y_pred \<Rightarrow> Inr (count_matrix y_true y_pred))
      | Inl e \<Rightarrow>
         (case texts_of t of
            Inl e \<Rightarrow> Inl e
          | Inr s_true \<Rightarrow>
             (case texts_of p of
                Inl e \<Rightarrow> Inl e
              | Inr s_pred \<Rightarrow> Inr (count_matrix s_true s_pred))))"

text \<open>
  \<^verbatim>\<open>pd.DataFrame(cm, index=[2 names], columns=[2 names])\<close>: the constructor raises
  ValueError unless the matrix has two rows of two cells.
\<close>

definition cm_df :: "nat list list \<Rightarrow> error + chart" where
  "cm_df cm =
     (if length cm = 2 \<and> list_all (\<lambda>r. length r = 2) cm
      then Inr (Heatmap [''Actual Normal'', ''Actual Attack''] [''Pred Normal'', ''Pred Attack''] cm)
      else Inl ValueError)"

definition heatmap :: "(cell \<times> cell) list \<Rightarrow> error + chart" where
  "heatmap acc_df =
     (case confusion_matrix (map fst acc_df) (map snd acc_df) of
        Inl e \<Rightarrow> Inl e
      | Inr cm \<Rightarrow> cm_df cm)"

definition accuracy_section :: "nat list \<Rightarrow> DataFrame \<Rightarrow> page" where
  "accuracy_section seeds df_pred =
     (let h = Subheader ''Model Accuracy & Regression Plot'' in
      if \<not> empty df_pred \<and> ''true_label'' \<in> set (columns df_pred)
           \<and> ''predicted'' \<in> set (columns df_pred)
      then
        (case acc_frame df_pred of
           Inl e \<Rightarrow> ([h], Raised e)
         | Inr acc_df \<Rightarrow>
            (case accuracy acc_df of
               Inl e \<Rightarrow> ([h], Raised e)
             | Inr a \<Rightarrow>
                (let m = Metric ''Model Accuracy'' (Percent a) in
                 case sample seeds (min 2000 (length acc_df)) acc_df of
                   Inl e \<Rightarrow> ([h, m], Raised e)
                 | Inr smp \<Rightarrow>
                    (case px_scatter smp of
                       Inl e \<Rightarrow> ([h, m], Raised e)
                     | Inr fig_reg \<Rightarrow>
                        (case heatmap acc_df of
                           Inl e \<Rightarrow> ([h, m, PlotlyChart fig_reg], Raised e)
                         | Inr fig_cm \<Rightarrow>
                            ([h, m, PlotlyChart fig_reg, PlotlyChart fig_cm, Divider], Finished))))))
      else
        ([h, Warning ''Prediction dataset not loaded or missing `true_label` / `predicted` columns.'',
          Divider],
         Finished))"

subsection \<open>Insights (lines 134 to 157)\<close>

text \<open>
  What the script asks of pandas here is not fixed by the repository, so it is a
  parameter of the model:
  \<^item> \<open>sort_values\<close> orders a frequency table by count, as the default sort of
    \<^verbatim>\<open>value_counts()\<close> does (the order it gives to equal counts is the library's);
  \<^item> \<open>to_datetime\<close> reads a column as timestamps (seconds since the epoch), \<open>None\<close>
    for a value it cannot read (\<^verbatim>\<open>errors="coerce"\<close>);
  \<^item> \<open>resample_size\<close> is \<^verbatim>\<open>set_index(...).resample("H").size()\<close>: the hourly
    buckets in time order, each with its start and its count, or an exception;
  \<^item> \<open>strftime\<close> prints a bucket's start.
\<close>

record pandas =
  sort_values :: "(cell \<times> nat) list \<Rightarrow> (cell \<times> nat) list"
  to_datetime :: "cell list \<Rightarrow> int option list"
  resample_size :: "int option list \<Rightarrow> error + (int \<times> nat) list"
  strftime :: "int \<Rightarrow> string"

text \<open>Decimal digits, and \<^verbatim>\<open>str\<close> of a cell as an f-string or \<^verbatim>\<open>map(str, ...)\<close> prints it.\<close>

fun digits :: "nat \<Rightarrow> string" where
  "digits n =
     (if n < 10 then [''0123456789'' ! n]
      else digits (n div 10) @ [''0123456789'' ! (n mod 10)])"

fun str :: "cell \<Rightarrow> string" where
  "str (CInt n) = (if n < 0 then CHR ''-'' # digits (nat (- n)) else digits (nat n))"
| "str (CStr s) = s"
| "str NaN = ''nan''"

text \<open>
  How pandas types a column it read from a file: a column that holds text is a column of
  objects; a column of numbers with a missing value is a column of floats, and each of
  its numbers is a float; a column of numbers only is a column of integers. A float that
  is a whole number prints with a trailing \<^verbatim>\<open>.0\<close> (whole numbers of more than fifteen
  digits, which a float prints with an exponent, are outside the model).
\<close>

definition column :: "DataFrame \<Rightarrow> string \<Rightarrow> cell list" where
  "column df c = map (\<lambda>r. cell_of (columns df) r c) (rows df)"

definition text_col :: "DataFrame \<Rightarrow> string \<Rightarrow> bool" where
  "text_col df c = list_ex is_text (column df c)"

definition float_col :: "DataFrame \<Rightarrow> string \<Rightarrow> bool" where
  "float_col df c = (\<not> text_col df c \<and> list_ex (\<lambda>x. x = NaN) (column df c))"

definition str_float :: "int \<Rightarrow> string" where
  "str_float n = str (CInt n) @ ''.0''"

definition str_as :: "bool \<Rightarrow> cell \<Rightarrow> string" where
  "str_as as_float c = (case c of CInt n \<Rightarrow> (if as_float then str_float n else str c) | _ \<Rightarrow> str c)"

text \<open>
  The frequency table before sorting: the distinct values in the order they are first
  seen, missing values dropped.
\<close>

fun bump :: "cell \<Rightarrow> (cell \<times> nat) list \<Rightarrow> (cell \<times> nat) list" where
  "bump c [] = [(c, 1)]"
| "bump c ((d, n) # r) = (if c = d then (d, Suc n) # r else (d, n) # bump c r)"

definition counts :: "cell list \<Rightarrow> (cell \<times> nat) list" where
  "counts s = foldl (\<lambda>acc c. bump c acc) [] (filter (\<lambda>c. c \<noteq> NaN) s)"

text \<open>\<^verbatim>\<open>s.value_counts().head(3).index.tolist()\<close>\<close>

definition top3 :: "pandas \<Rightarrow> cell list \<Rightarrow> cell list" where
  "top3 lib s = map fst (take 3 (sort_values lib (counts s)))"

text \<open>\<^verbatim>\<open>', '.join(items)\<close> raises TypeError for an item that is not a string.\<close>

fun str_items :: "cell list \<Rightarrow> error + string list" where
  "str_items [] = Inr []"
| "str_items (CStr s # cs) = (case str_items cs of Inl e \<Rightarrow> Inl e | Inr ss \<Rightarrow> Inr (s # ss))"
| "str_items (_ # cs) = Inl TypeError"

fun intercalate :: "string \<Rightarrow> string list \<Rightarrow> string" where
  "intercalate sep [] = []"
| "intercalate sep [s] = s"
| "intercalate sep (s # t # ss) = s @ sep @ intercalate sep (t # ss)"

definition join :: "string \<Rightarrow> cell list \<Rightarrow> error + string" where
  "join sep items =
     (case str_items items of Inl e \<Rightarrow> Inl e | Inr ss \<Rightarrow> Inr (intercalate sep ss))"

definition top_threats :: "pandas \<Rightarrow> DataFrame \<Rightarrow> page" where
  "top_threats lib df =
     (if ''reasons'' \<in> set (columns df) then
        (case getitem df ''reasons'' of
           Inl e \<Rightarrow> ([], Raised e)
         | Inr s \<Rightarrow>
            (case join '', '' (top3 lib s) of
               Inl e \<Rightarrow> ([], Raised e)
             | Inr t \<Rightarrow> ([Write (''Most common threats detected: **'' @ t @ ''**'')], Finished)))
      else ([], Finished))"

definition top_ips :: "pandas \<Rightarrow> DataFrame \<Rightarrow> page" where
  "top_ips lib df =
     (if ''host'' \<in> set (columns df) then
        (case getitem df ''host'' of
           Inl e \<Rightarrow> ([], Raised e)
         | Inr s \<Rightarrow>
            ([Write (''Top suspicious sources: **''
                     @ intercalate '', '' (map (str_as (float_col df ''host'')) (top3 lib s)) @ ''**'')],
             Finished))
      else ([], Finished))"

text \<open>\<^verbatim>\<open>hourly.idxmax()\<close>: the start of the first bucket that holds the largest count.\<close>

fun best_from :: "int \<times> nat \<Rightarrow> (int \<times> nat) list \<Rightarrow> int \<times> nat" where
  "best_from b [] = b"
| "best_from b (x # r) = best_from (if snd x > snd b then x else b) r"

definition idxmax :: "(int \<times> nat) list \<Rightarrow> error + int" where
  "idxmax hourly = (case hourly of [] \<Rightarrow> Inl ValueError | x # r \<Rightarrow> Inr (fst (best_from x r)))"

definition peak :: "pandas \<Rightarrow> DataFrame \<Rightarrow> page" where
  "peak lib df =
     (if ''timestamp'' \<in> set (columns df) then
        (case getitem df ''timestamp'' of
           Inl e \<Rightarrow> ([], Raised e)
         | Inr s \<Rightarrow>
            (case resample_size lib (to_datetime lib s) of
               Inl e \<Rightarrow> ([], Raised e)
             | Inr hourly \<Rightarrow>
                (if length hourly > 0 then
                   (case idxmax hourly of
                      Inl e \<Rightarrow> ([], Raised e)
                    | Inr pk \<Rightarrow>
                       ([Write (''Peak suspicious activity at: **'' @ strftime lib pk @ ''**'')],
                        Finished))
                 else ([], Finished))))
      else ([], Finished))"

definition insights :: "pandas \<Rightarrow> DataFrame \<Rightarrow> page" where
  "insights lib df_expl =
     run [([Subheader ''Key Insights (From Explained Anomalies)''], Finished),
          (if \<not> empty df_expl
           then run [top_threats lib df_expl, top_ips lib df_expl, peak lib df_expl]
           else ([Info ''No GenAI explanations available yet.''], Finished)),
          ([Divider], Finished)]"

subsection \<open>Recommended actions (lines 162 to 171)\<close>

text \<open>
  One \<^verbatim>\<open>st.write\<close> of a fixed text: an empty first line, then five lines, each ending
  in two spaces and a line feed.
\<close>

definition recommended_actions :: page where
  "recommended_actions =
     ([Subheader ''Recommended Actions'',
       Write (CHR 0x0A #
              concat (map (\<lambda>l. l @ [CHR '' '', CHR '' '', CHR 0x0A])
                [''- **Block or rate-limit** top suspicious IPs or User-Agents.'',
                 ''- **Patch/remove legacy endpoints** (e.g., `/cgi-bin/*`).'',
                 ''- **Restrict HTTP methods** to only `GET`, `POST`, `HEAD`.'',
                 ''- **Enable WAF rules** for SQL keywords and path traversal.'',
                 ''- **Investigate repeated server errors (5xx)** in logs.''])),
       Divider],
      Finished)"

subsection \<open>Sample alerts (lines 176 to 188)\<close>

text \<open>
  \<^verbatim>\<open>row.get(key, default)\<close> inside an f-string: the row is indexed by the column
  names, so the default is used exactly when the table has no such column; otherwise the
  value of the row is printed, whatever it is.

  The row comes from \<^verbatim>\<open>iterrows()\<close>, which hands each row over as one series of one
  type. When every column of the table is a column of numbers and one of them is a column
  of floats, the whole row is floats, its integers included. A table with a column of
  text keeps each value as its column has it, and so does a table with a \<^verbatim>\<open>timestamp\<close>
  column: by the time the loop runs, line 149 has turned that column into datetimes.
\<close>

definition float_row :: "DataFrame \<Rightarrow> bool" where
  "float_row df =
     (''timestamp'' \<notin> set (columns df) \<and> \<not> list_ex (text_col df) (columns df)
      \<and> list_ex (float_col df) (columns df))"

definition row_get :: "DataFrame \<Rightarrow> cell list \<Rightarrow> string \<Rightarrow> string \<Rightarrow> string" where
  "row_get df r k d =
     (if k \<in> set (columns df)
      then str_as (float_col df k \<or> float_row df) (cell_of (columns df) r k)
      else d)"

definition alert_card :: "DataFrame \<Rightarrow> cell list \<Rightarrow> widget list" where
  "alert_card df r =
     [Error (row_get df r ''summary'' ''Suspicious request''),
      Write (''**Reason:** '' @ row_get df r ''reasons'' ''-''),
      Write (''**Impact:** '' @ row_get df r ''impact'' ''-''),
      Write (''**Suggested Action:** '' @ row_get df r ''suggested_action'' ''-''),
      Caption (''Method: '' @ row_get df r ''Method'' ''-'' @ '' | URL: '' @ row_get df r ''URL'' ''-''
               @ '' | User-Agent: '' @ row_get df r ''User-Agent'' ''-''),
      Write ''---'']"

text \<open>\<^verbatim>\<open>df_expl.head(5)\<close> and one card per row of it, in order.\<close>

definition sample_alerts :: "DataFrame \<Rightarrow> page" where
  "sample_alerts df_expl =
     (Subheader ''Sample Alerts (Top 5)'' #
        (if \<not> empty df_expl
         then concat (map (alert_card df_expl) (take 5 (rows df_expl)))
         else [Success ''No anomaly explanations to show.'']),
      Finished)"

subsection \<open>The whole script\<close>

text \<open>
  The script after loading. (The insights section rewrites the \<^verbatim>\<open>timestamp\<close> column of
  the explanations table in place, as datetimes. No later line reads the values of that
  column; what the rewriting changes for the alert loop is the type of the rows, which
  the loop's model accounts for.)
\<close>

definition app :: "pandas \<Rightarrow> nat list \<Rightarrow> DataFrame \<Rightarrow> DataFrame \<Rightarrow> DataFrame \<Rightarrow> page" where
  "app lib seeds df_full df_expl df_pred =
     run [header,
          validate df_full df_expl df_pred,
          traffic_mix df_full df_expl,
          accuracy_section seeds df_pred,
          insights lib df_expl,
          recommended_actions,
          sample_alerts df_expl]"

text \<open>
  The script from its three paths on: the title and caption are out before anything is
  loaded, then the three tables are loaded and the sections run.
\<close>

definition main ::
  "(string \<Rightarrow> error + DataFrame) \<Rightarrow> pandas \<Rightarrow> nat list \<Rightarrow> string \<Rightarrow> string \<Rightarrow> string \<Rightarrow> page" where
  "main read_csv lib seeds full_csv expl_csv pred_csv =
     (case load_csv read_csv full_csv of
        Inl e \<Rightarrow> (fst header, Raised e)
      | Inr df_full \<Rightarrow>
         (case load_csv read_csv expl_csv of
            Inl e \<Rightarrow> (fst header, Raised e)
          | Inr df_expl \<Rightarrow>
             (case load_csv read_csv pred_csv of
                Inl e \<Rightarrow> (fst header, Raised e)
              | Inr df_pred \<Rightarrow> app lib seeds df_full df_expl df_pred)))"

section \<open>Properties\<close>

lemma sum_bool_filter: "sum_bool (map P xs) = int (length (filter P xs))"
  by (induction xs) auto

lemma count_ones_present:
  "c \<in> set (columns df) \<Longrightarrow>
   count_ones df c = Inr (int (length (filter (\<lambda>r. cell_of (columns df) r c = CInt 1) (rows df))))"
proof -
  assume h: "c \<in> set (columns df)"
  have eq: "\<And>x. cell_eq x (CInt 1) = (x = CInt 1)"
    by (case_tac x) auto
  have "sum_bool (series_eq (map (\<lambda>r. cell_of (columns df) r c) (rows df)) (CInt 1))
        = int (length (filter (\<lambda>r. cell_of (columns df) r c = CInt 1) (rows df)))"
    unfolding series_eq_def map_map comp_def eq by (rule sum_bool_filter)
  with h show ?thesis by (simp add: count_ones_def getitem_def)
qed

lemma total_anoms_returns: "\<exists>a. total_anoms df_full df_expl = Inr a"
  by (simp add: total_anoms_def count_ones_present)

subsection \<open>Traffic summary\<close>

text \<open>
  C1. The anomaly count follows the three tiers in order, for every pair of tables: with a
  \<^verbatim>\<open>predicted\<close> column it is the number of rows whose \<^verbatim>\<open>predicted\<close> cell equals 1 (also
  when a \<^verbatim>\<open>classification\<close> column is there too); failing that, with a
  \<^verbatim>\<open>classification\<close> column it is the number of rows whose \<^verbatim>\<open>classification\<close> cell
  equals 1; failing both it is the row count of the explanations table. The count is
  always computed: no tier raises.
\<close>

theorem total_anoms_tiering:
  "total_anoms df_full df_expl =
     Inr (if ''predicted'' \<in> set (columns df_full)
          then int (length (filter (\<lambda>r. cell_of (columns df_full) r ''predicted'' = CInt 1) (rows df_full)))
          else if ''classification'' \<in> set (columns df_full)
          then int (length (filter (\<lambda>r. cell_of (columns df_full) r ''classification'' = CInt 1) (rows df_full)))
          else int (length (rows df_expl)))"
  by (simp add: total_anoms_def count_ones_present len_def)

text \<open>
  A table with both columns, three rows classified 1 and one row predicted 1, beside
  an explanations table of two rows: the count is 1, the \<^verbatim>\<open>predicted\<close> tier.
\<close>

theorem total_anoms_tiering_witness:
  "total_anoms \<lparr>columns = [''classification'', ''predicted''],
                 rows = [[CInt 1, CInt 0], [CInt 1, CInt 1], [CInt 1, CInt 0]]\<rparr>
               \<lparr>columns = [''reasons''], rows = [[CStr ''a''], [CStr ''b'']]\<rparr> = Inr 1"
  using total_anoms_tiering [of "\<lparr>columns = [''classification'', ''predicted''],
                 rows = [[CInt 1, CInt 0], [CInt 1, CInt 1], [CInt 1, CInt 0]]\<rparr>"
               "\<lparr>columns = [''reasons''], rows = [[CStr ''a''], [CStr ''b'']]\<rparr>"]
  by (simp add: cell_of_def)

text \<open>
  C2. For every pair of tables the summary is computed (no division error, and so no
  non-finite rate): the total is the row count of the full table, the anomaly count is
  the tiered one, normals are total minus anomalies, so that anomalies plus normals give
  the total, and the rate is anomalies / total * 100 for a positive total and 0 for an
  empty table.
\<close>

theorem summarize_outputs:
  "\<exists>s. summarize df_full df_expl = Inr s
       \<and> total_anoms df_full df_expl = Inr (s_anoms s)
       \<and> s_total s = int (length (rows df_full))
       \<and> s_norms s = s_total s - s_anoms s
       \<and> s_anoms s + s_norms s = s_total s
       \<and> s_rate s = (if s_total s > 0 then of_int (s_anoms s) / of_int (s_total s) * 100 else 0)"
proof -
  obtain a where a: "total_anoms df_full df_expl = Inr a"
    using total_anoms_returns by blast
  show ?thesis
    by (cases "rows df_full = []")
       (simp_all add: summarize_def a anom_rate_def truediv_def total_def len_def total_norms_def)
qed

subsection \<open>Loading\<close>

text \<open>
  C6. For every reader and every path, \<^verbatim>\<open>load_csv\<close> returns a table and never an
  exception: when the reader fails, whatever the failure, the result is the table with
  no rows and no columns; when the reader succeeds, the result is the table read.
\<close>

theorem load_csv_never_raises:
  "\<exists>df. load_csv read_csv path = Inr df
        \<and> (\<forall>e. read_csv path = Inl e \<longrightarrow> df = pd_DataFrame \<and> rows df = [] \<and> columns df = [])
        \<and> (\<forall>t. read_csv path = Inr t \<longrightarrow> df = t)"
  by (cases "read_csv path") (simp_all add: load_csv_def pd_DataFrame_def)

text \<open>A reader that knows one file, asked for another: the empty table comes back.\<close>

theorem load_csv_never_raises_witness:
  "load_csv (\<lambda>p. if p = ''csic_database.csv''
                  then Inr \<lparr>columns = [''classification''], rows = [[CInt 1]]\<rparr>
                  else Inl OSError)
      ''missing.csv'' = Inr \<lparr>columns = [], rows = []\<rparr>"
  using load_csv_never_raises [of "\<lambda>p. if p = ''csic_database.csv''
                  then Inr \<lparr>columns = [''classification''], rows = [[CInt 1]]\<rparr>
                  else Inl OSError" "''missing.csv''"]
  by (auto simp: pd_DataFrame_def)

subsection \<open>Model accuracy\<close>







text \<open>
  A table of text labels, three rows: the metric is on the page, the trend-line fit
  raises, and the run ends there.
\<close>

lemma accuracy_section_text_labels:
  "accuracy_section []
     \<lparr>columns = [''true_label'', ''predicted''],
      rows = [[CStr ''a'', CStr ''a''], [CStr ''b'', CStr ''a''], [CStr ''b'', CStr ''b'']]\<rparr> =
     ([Subheader ''Model Accuracy & Regression Plot'',
       Metric ''Model Accuracy'' (Percent (200 / 3))],
      Raised ValueError)"
  by (simp add: accuracy_section_def empty_def acc_frame_def getitem_def cell_of_def accuracy_def
        truediv_def sample_def px_scatter_def complete_def Let_def eval_nat_numeral)

subsection \<open>The fallback tier on the page\<close>

lemma run_Cons_Finished: "snd p = Finished \<Longrightarrow> run (p # ps) = (fst p @ fst (run ps), snd (run ps))"
  by simp

text \<open>
  C10. When the full table is not empty and has neither a \<^verbatim>\<open>predicted\<close> nor a
  \<^verbatim>\<open>classification\<close> column, the anomaly count is the row count of the explanations
  table. If that table has more rows than the full table, the normal count is negative
  and the rate exceeds 100, and the page shows exactly these numbers: in the two metrics
  and in the pie chart, with no clamping in between.
\<close>

theorem fallback_tier_unclamped:
  assumes "\<not> empty df_full" "''predicted'' \<notin> set (columns df_full)"
    "''classification'' \<notin> set (columns df_full)"
    "length (rows df_full) < length (rows df_expl)"
  shows "\<exists>s rest st.
     summarize df_full df_expl = Inr s
     \<and> s_anoms s = int (length (rows df_expl))
     \<and> s_norms s = int (length (rows df_full)) - int (length (rows df_expl))
     \<and> s_norms s < 0
     \<and> s_rate s = of_nat (length (rows df_expl)) / of_nat (length (rows df_full)) * 100
     \<and> s_rate s > 100
     \<and> app lib seeds df_full df_expl df_pred =
         (fst header @ fst (validate df_full df_expl df_pred) @
          [Metric ''Total Requests'' (Count (int (length (rows df_full)))),
           Metric ''Detected Anomalies'' (Count (s_anoms s)),
           Metric ''Anomaly Rate'' (Percent (s_rate s)),
           Divider,
           Subheader ''Traffic Mix'',
           PlotlyChart (Pie [(''Normal'', s_norms s), (''Anomalous'', s_anoms s)])] @ rest, st)"
proof -
  let ?n = "length (rows df_full)" and ?m = "length (rows df_expl)"
  let ?s = "\<lparr>s_total = int ?n, s_anoms = int ?m, s_norms = int ?n - int ?m,
             s_rate = of_nat ?m / of_nat ?n * 100\<rparr>"
  have pos: "0 < ?n" using assms(1) by (simp add: empty_def)
  have s: "summarize df_full df_expl = Inr ?s"
    using assms pos
    by (simp add: summarize_def total_anoms_def anom_rate_def truediv_def total_def len_def total_norms_def)
  have rate: "s_rate ?s > 100"
    using pos assms(4) by (simp add: pos_less_divide_eq)
  have v: "snd (validate df_full df_expl df_pred) = Finished"
    using assms(1) by (simp add: validate_def)
  have "app lib seeds df_full df_expl df_pred =
         (fst header @ fst (validate df_full df_expl df_pred) @
          [Metric ''Total Requests'' (Count (int ?n)),
           Metric ''Detected Anomalies'' (Count (s_anoms ?s)),
           Metric ''Anomaly Rate'' (Percent (s_rate ?s)),
           Divider,
           Subheader ''Traffic Mix'',
           PlotlyChart (Pie [(''Normal'', s_norms ?s), (''Anomalous'', s_anoms ?s)])] @
          (Divider # fst (run [accuracy_section seeds df_pred, insights lib df_expl, recommended_actions, sample_alerts df_expl])),
          snd (run [accuracy_section seeds df_pred, insights lib df_expl, recommended_actions, sample_alerts df_expl]))"
    unfolding app_def
    by (simp add: run_Cons_Finished v header_def traffic_mix_def s del: run.simps)
  with s rate assms(4) show ?thesis
    by (intro exI [of _ ?s]) (simp del: run.simps)
qed

text \<open>One request, two explained anomalies: 2 anomalies, -1 normals, a rate of 200.\<close>

theorem fallback_tier_unclamped_witness:
  "\<exists>rest st.
     app \<lparr>sort_values = (\<lambda>t. t), to_datetime = map (\<lambda>c. None),
          resample_size = (\<lambda>ts. Inr []), strftime = (\<lambda>t. [])\<rparr> []
         \<lparr>columns = [''URL''], rows = [[CStr ''/a'']]\<rparr>
         \<lparr>columns = [''summary''], rows = [[CStr ''x''], [CStr ''y'']]\<rparr>
         pd_DataFrame =
       ([Title ''MSME Cybersecurity Insights'',
         Caption ''Business-friendly security insights based on anomaly detection + GenAI explanations'',
         Warning ''No prediction results file loaded. Accuracy analysis may be missing.'',
         Metric ''Total Requests'' (Count 1),
         Metric ''Detected Anomalies'' (Count 2),
         Metric ''Anomaly Rate'' (Percent 200),
         Divider,
         Subheader ''Traffic Mix'',
         PlotlyChart (Pie [(''Normal'', - 1), (''Anomalous'', 2)])] @ rest, st)"
proof -
  let ?lib = "\<lparr>sort_values = (\<lambda>t. t), to_datetime = map (\<lambda>c. None),
          resample_size = (\<lambda>ts. Inr []), strftime = (\<lambda>t. [])\<rparr>"
  let ?full = "\<lparr>columns = [''URL''], rows = [[CStr ''/a'']]\<rparr>"
  let ?expl = "\<lparr>columns = [''summary''], rows = [[CStr ''x''], [CStr ''y'']]\<rparr>"
  have "\<not> empty ?full" "''predicted'' \<notin> set (columns ?full)"
    "''classification'' \<notin> set (columns ?full)" "length (rows ?full) < length (rows ?expl)"
    by (simp_all add: empty_def)
  from fallback_tier_unclamped [OF this, of ?lib "[]" pd_DataFrame]
  obtain rest st where
    p: "app ?lib [] ?full ?expl pd_DataFrame =
         (fst header @ fst (validate ?full ?expl pd_DataFrame) @
          [Metric ''Total Requests'' (Count 1),
           Metric ''Detected Anomalies'' (Count 2),
           Metric ''Anomaly Rate'' (Percent 200),
           Divider,
           Subheader ''Traffic Mix'',
           PlotlyChart (Pie [(''Normal'', - 1), (''Anomalous'', 2)])] @ rest, st)"
    by auto
  show ?thesis
    unfolding p
    by (simp add: header_def validate_def empty_def pd_DataFrame_def)
qed

subsection \<open>Confusion matrix\<close>

text \<open>
  Where both labels 0 and 1 occur in the two columns (and nothing else does), the matrix
  is the two-by-two table of co-occurrence counts, label 0 first on both axes, whatever
  the order of the rows.
\<close>

lemma unique_labels_binary:
  fixes yt yp :: "int list"
  shows "set (yt @ yp) = {0, 1} \<Longrightarrow> unique_labels yt yp = [0, 1]"
proof -
  assume h: "set (yt @ yp) = {0, 1}"
  have "sort (remdups (yt @ yp)) = sorted_list_of_set (set (yt @ yp))"
    by (simp only: sorted_list_of_set_sort_remdups)
  also have "\<dots> = [0, 1]" unfolding h by simp
  finally show ?thesis by (simp add: unique_labels_def)
qed

lemma heatmap_binary:
  assumes "labels_of (map fst acc_df) = Inr yt" "labels_of (map snd acc_df) = Inr yp"
    "set (yt @ yp) = {0, 1}"
  shows "heatmap acc_df =
     Inr (Heatmap [''Actual Normal'', ''Actual Attack''] [''Pred Normal'', ''Pred Attack'']
            [[length (filter (\<lambda>tp. tp = (0, 0)) (zip yt yp)), length (filter (\<lambda>tp. tp = (0, 1)) (zip yt yp))],
             [length (filter (\<lambda>tp. tp = (1, 0)) (zip yt yp)), length (filter (\<lambda>tp. tp = (1, 1)) (zip yt yp))]])"
  using assms(1,2) unique_labels_binary [OF assms(3)]
  by (simp add: heatmap_def confusion_matrix_def count_matrix_def cm_df_def Let_def)

text \<open>The specification's example, and a table whose first rows are attacks.\<close>

lemma heatmap_spec_example:
  "heatmap [(CInt 0, CInt 0), (CInt 0, CInt 1), (CInt 1, CInt 0), (CInt 1, CInt 1)] =
     Inr (Heatmap [''Actual Normal'', ''Actual Attack''] [''Pred Normal'', ''Pred Attack''] [[1, 1], [1, 1]])"
  using heatmap_binary [of "[(CInt 0, CInt 0), (CInt 0, CInt 1), (CInt 1, CInt 0), (CInt 1, CInt 1)]" "[0, 0, 1, 1]" "[0, 1, 0, 1]"]
  by auto

lemma heatmap_attack_seen_first:
  "heatmap [(CInt 1, CInt 1), (CInt 1, CInt 1), (CInt 0, CInt 1)] =
     Inr (Heatmap [''Actual Normal'', ''Actual Attack''] [''Pred Normal'', ''Pred Attack''] [[0, 1], [0, 2]])"
proof -
  have "set ([1, 1, 0] @ [1, 1, 1 :: int]) = {0, 1}" by auto
  from heatmap_binary [of "[(CInt 1, CInt 1), (CInt 1, CInt 1), (CInt 0, CInt 1)]" "[1, 1, 0]" "[1, 1, 1]", OF _ _ this]
  show ?thesis by (simp add: numeral_2_eq_2)
qed

lemma draw_one: "draw seeds (Suc 0) [x] = [x]"
  by (cases seeds) simp_all

text \<open>
  C4. The specification promises a two-by-two matrix for every non-empty predictions table with
  both columns. The script does not deliver it for a table in which only one label
  occurs: for the single row (0, 0) the matrix computed has one cell, building the
  labelled two-by-two frame from it raises ValueError, and the run ends after the scatter
  plot with no matrix on the page.
\<close>

theorem confusion_matrix_single_label:
  "accuracy_section seeds \<lparr>columns = [''true_label'', ''predicted''], rows = [[CInt 0, CInt 0]]\<rparr> =
     ([Subheader ''Model Accuracy & Regression Plot'',
       Metric ''Model Accuracy'' (Percent 100),
       PlotlyChart (Scatter [(CInt 0, CInt 0)])],
      Raised ValueError)"
  by (simp add: accuracy_section_def empty_def acc_frame_def getitem_def cell_of_def accuracy_def
        truediv_def sample_def draw_one px_scatter_def complete_def heatmap_def confusion_matrix_def
        count_matrix_def unique_labels_def cm_df_def Let_def
        split: list.splits)

subsection \<open>Degradation\<close>

text \<open>
  What the three emptiness checks do, each on its own: an empty full table stops the run
  after the error message; an empty explanations table turns the insights and the alerts
  into notices; a predictions table that is empty or lacks a label column turns the
  accuracy section into a warning.
\<close>

lemma app_full_empty:
  "empty df_full \<Longrightarrow>
   app lib seeds df_full df_expl df_pred =
     ([Title ''MSME Cybersecurity Insights'',
       Caption ''Business-friendly security insights based on anomaly detection + GenAI explanations'',
       Error ''Could not load full dataset.''],
      Stopped)"
  by (simp add: app_def header_def validate_def)

lemma insights_expl_empty:
  "empty df_expl \<Longrightarrow>
   insights lib df_expl =
     ([Subheader ''Key Insights (From Explained Anomalies)'',
       Info ''No GenAI explanations available yet.'', Divider], Finished)"
  by (simp add: insights_def)

lemma sample_alerts_expl_empty:
  "empty df_expl \<Longrightarrow>
   sample_alerts df_expl =
     ([Subheader ''Sample Alerts (Top 5)'', Success ''No anomaly explanations to show.''], Finished)"
  by (simp add: sample_alerts_def)

lemma accuracy_section_skipped:
  "empty df_pred \<or> ''true_label'' \<notin> set (columns df_pred) \<or> ''predicted'' \<notin> set (columns df_pred) \<Longrightarrow>
   accuracy_section seeds df_pred =
     ([Subheader ''Model Accuracy & Regression Plot'',
       Warning ''Prediction dataset not loaded or missing `true_label` / `predicted` columns.'',
       Divider], Finished)"
  by (auto simp: accuracy_section_def)

text \<open>
  C5. The specification promises that with only the explanations table empty, metrics, charts and
  accuracy analysis still render and the insights and alerts are replaced by notices. On
  the tables below (one request, no explanations, one prediction row (0, 0)) the
  confusion-matrix step of the accuracy section raises ValueError: the page ends after
  the scatter plot, without the matrix and without either notice.
\<close>

theorem notices_lost_after_matrix_failure:
  "app lib seeds \<lparr>columns = [''classification''], rows = [[CInt 1]]\<rparr> pd_DataFrame
       \<lparr>columns = [''true_label'', ''predicted''], rows = [[CInt 0, CInt 0]]\<rparr> =
     ([Title ''MSME Cybersecurity Insights'',
       Caption ''Business-friendly security insights based on anomaly detection + GenAI explanations'',
       Warning ''No explained anomalies file loaded. Some insights may be missing.'',
       Metric ''Total Requests'' (Count 1),
       Metric ''Detected Anomalies'' (Count 1),
       Metric ''Anomaly Rate'' (Percent 100),
       Divider,
       Subheader ''Traffic Mix'',
       PlotlyChart (Pie [(''Normal'', 0), (''Anomalous'', 1)]),
       Divider,
       Subheader ''Model Accuracy & Regression Plot'',
       Metric ''Model Accuracy'' (Percent 100),
       PlotlyChart (Scatter [(CInt 0, CInt 0)])],
      Raised ValueError)"
proof -
  have a: "accuracy_section seeds \<lparr>columns = [''true_label'', ''predicted''], rows = [[CInt 0, CInt 0]]\<rparr> =
     ([Subheader ''Model Accuracy & Regression Plot'',
       Metric ''Model Accuracy'' (Percent 100),
       PlotlyChart (Scatter [(CInt 0, CInt 0)])],
      Raised ValueError)"
    by (simp add: accuracy_section_def empty_def acc_frame_def getitem_def cell_of_def accuracy_def
        truediv_def sample_def px_scatter_def complete_def heatmap_def confusion_matrix_def
        count_matrix_def unique_labels_def cm_df_def Let_def
        split: list.splits)
  have t: "traffic_mix \<lparr>columns = [''classification''], rows = [[CInt 1]]\<rparr> pd_DataFrame =
     ([Metric ''Total Requests'' (Count 1),
       Metric ''Detected Anomalies'' (Count 1),
       Metric ''Anomaly Rate'' (Percent 100),
       Divider,
       Subheader ''Traffic Mix'',
       PlotlyChart (Pie [(''Normal'', 0), (''Anomalous'', 1)]),
       Divider], Finished)"
    by (simp add: traffic_mix_def summarize_def total_anoms_def count_ones_def getitem_def
        series_eq_def cell_of_def anom_rate_def truediv_def total_def len_def total_norms_def)
  show ?thesis
    unfolding app_def a t
    by (simp add: header_def validate_def empty_def pd_DataFrame_def)
qed

subsection \<open>Sample alerts\<close>

lemma row_get_absent: "k \<notin> set (columns df) \<Longrightarrow> row_get df r k d = d"
  by (simp add: row_get_def)

lemma row_get_text:
  "k \<in> set (columns df) \<Longrightarrow> cell_of (columns df) r k = CStr s \<Longrightarrow> row_get df r k d = s"
  by (simp add: row_get_def str_as_def)

lemma row_get_missing:
  "k \<in> set (columns df) \<Longrightarrow> cell_of (columns df) r k = NaN \<Longrightarrow> row_get df r k d = ''nan''"
  by (simp add: row_get_def str_as_def)

text \<open>
  C9, as amended. For every non-empty explanations table the alert section never fails
  and renders exactly min(5, row count) cards, one per row, for the first rows in file
  order. Each card is a headline, a reason, an impact, a suggested action, a caption with
  \<^verbatim>\<open>Method\<close>, \<^verbatim>\<open>URL\<close> and \<^verbatim>\<open>User-Agent\<close>, and a rule. The headline is the placeholder
  "Suspicious request" when the table has no \<^verbatim>\<open>summary\<close> column, and each of the other
  six fields is the placeholder "-" when the table has no such column, each on its own.
  Where the column is there, a text in the row is printed as it is, and an empty cell is
  printed as "nan", not as the placeholder.
\<close>

theorem sample_alerts_cards:
  assumes "\<not> empty df_expl"
  shows "\<exists>cards.
     sample_alerts df_expl = (Subheader ''Sample Alerts (Top 5)'' # concat cards, Finished)
     \<and> length cards = min 5 (length (rows df_expl))
     \<and> (\<forall>i < length cards. \<exists>headline reason impact action method url agent.
           cards ! i =
             [Error headline, Write (''**Reason:** '' @ reason), Write (''**Impact:** '' @ impact),
              Write (''**Suggested Action:** '' @ action),
              Caption (''Method: '' @ method @ '' | URL: '' @ url @ '' | User-Agent: '' @ agent),
              Write ''---'']
           \<and> (\<forall>(k, d, v) \<in> set [(''summary'', ''Suspicious request'', headline),
                                  (''reasons'', ''-'', reason), (''impact'', ''-'', impact),
                                  (''suggested_action'', ''-'', action), (''Method'', ''-'', method),
                                  (''URL'', ''-'', url), (''User-Agent'', ''-'', agent)].
                 (k \<notin> set (columns df_expl) \<longrightarrow> v = d)
               \<and> (k \<in> set (columns df_expl) \<longrightarrow>
                    (\<forall>s. cell_of (columns df_expl) (rows df_expl ! i) k = CStr s \<longrightarrow> v = s)
                  \<and> (cell_of (columns df_expl) (rows df_expl ! i) k = NaN \<longrightarrow> v = ''nan''))))"
proof -
  let ?cards = "map (alert_card df_expl) (take 5 (rows df_expl))"
  have p: "sample_alerts df_expl = (Subheader ''Sample Alerts (Top 5)'' # concat ?cards, Finished)"
    using assms by (simp add: sample_alerts_def)
  have l: "length ?cards = min 5 (length (rows df_expl))"
    by (simp add: min.commute)
  have c: "\<exists>headline reason impact action method url agent.
           ?cards ! i =
             [Error headline, Write (''**Reason:** '' @ reason), Write (''**Impact:** '' @ impact),
              Write (''**Suggested Action:** '' @ action),
              Caption (''Method: '' @ method @ '' | URL: '' @ url @ '' | User-Agent: '' @ agent),
              Write ''---'']
           \<and> (\<forall>(k, d, v) \<in> set [(''summary'', ''Suspicious request'', headline),
                                  (''reasons'', ''-'', reason), (''impact'', ''-'', impact),
                                  (''suggested_action'', ''-'', action), (''Method'', ''-'', method),
                                  (''URL'', ''-'', url), (''User-Agent'', ''-'', agent)].
                 (k \<notin> set (columns df_expl) \<longrightarrow> v = d)
               \<and> (k \<in> set (columns df_expl) \<longrightarrow>
                    (\<forall>s. cell_of (columns df_expl) (rows df_expl ! i) k = CStr s \<longrightarrow> v = s)
                  \<and> (cell_of (columns df_expl) (rows df_expl ! i) k = NaN \<longrightarrow> v = ''nan'')))"
    if i: "i < length ?cards" for i
  proof -
    let ?r = "rows df_expl ! i"
    have n: "?cards ! i = alert_card df_expl ?r" using i by simp
    show ?thesis
      apply (rule exI [of _ "row_get df_expl ?r ''summary'' ''Suspicious request''"])
      apply (rule exI [of _ "row_get df_expl ?r ''reasons'' ''-''"])
      apply (rule exI [of _ "row_get df_expl ?r ''impact'' ''-''"])
      apply (rule exI [of _ "row_get df_expl ?r ''suggested_action'' ''-''"])
      apply (rule exI [of _ "row_get df_expl ?r ''Method'' ''-''"])
      apply (rule exI [of _ "row_get df_expl ?r ''URL'' ''-''"])
      apply (rule exI [of _ "row_get df_expl ?r ''User-Agent'' ''-''"])
      apply (simp only: n alert_card_def)
      apply (simp add: row_get_absent row_get_text row_get_missing)
      done
  qed
  from p l c show ?thesis by blast
qed

text \<open>
  C9 as stated fails: a row whose \<^verbatim>\<open>summary\<close> cell is empty in the file gets the
  headline "nan", not the placeholder.
\<close>

theorem empty_summary_prints_nan:
  "sample_alerts \<lparr>columns = [''summary'', ''URL''], rows = [[NaN, CStr ''/login'']]\<rparr> =
     ([Subheader ''Sample Alerts (Top 5)'',
       Error ''nan'',
       Write ''**Reason:** -'',
       Write ''**Impact:** -'',
       Write ''**Suggested Action:** -'',
       Caption ''Method: - | URL: /login | User-Agent: -'',
       Write ''---''],
      Finished)"
  by (simp add: sample_alerts_def empty_def alert_card_def row_get_def cell_of_def str_as_def)

text \<open>Two rows, no \<^verbatim>\<open>summary\<close> column, one missing \<^verbatim>\<open>URL\<close> cell: two cards.\<close>

theorem sample_alerts_cards_witness:
  "\<exists>cards.
     sample_alerts \<lparr>columns = [''reasons'', ''URL''],
                     rows = [[CStr ''sqli'', CStr ''/login''], [CStr ''xss'', NaN]]\<rparr> =
       (Subheader ''Sample Alerts (Top 5)'' # concat cards, Finished)
     \<and> length cards = 2
     \<and> cards ! 0 =
         [Error ''Suspicious request'', Write ''**Reason:** sqli'', Write ''**Impact:** -'',
          Write ''**Suggested Action:** -'', Caption ''Method: - | URL: /login | User-Agent: -'',
          Write ''---'']
     \<and> cards ! 1 =
         [Error ''Suspicious request'', Write ''**Reason:** xss'', Write ''**Impact:** -'',
          Write ''**Suggested Action:** -'', Caption ''Method: - | URL: nan | User-Agent: -'',
          Write ''---'']"
proof -
  let ?df = "\<lparr>columns = [''reasons'', ''URL''],
              rows = [[CStr ''sqli'', CStr ''/login''], [CStr ''xss'', NaN]]\<rparr>"
  have ne: "\<not> empty ?df" by (simp add: empty_def)
  from sample_alerts_cards [OF ne] obtain cards where
    p: "sample_alerts ?df = (Subheader ''Sample Alerts (Top 5)'' # concat cards, Finished)" and
    l: "length cards = min 5 (length (rows ?df))" and
    c: "\<forall>i < length cards. \<exists>headline reason impact action method url agent.
           cards ! i =
             [Error headline, Write (''**Reason:** '' @ reason), Write (''**Impact:** '' @ impact),
              Write (''**Suggested Action:** '' @ action),
              Caption (''Method: '' @ method @ '' | URL: '' @ url @ '' | User-Agent: '' @ agent),
              Write ''---'']
           \<and> (\<forall>(k, d, v) \<in> set [(''summary'', ''Suspicious request'', headline),
                                  (''reasons'', ''-'', reason), (''impact'', ''-'', impact),
                                  (''suggested_action'', ''-'', action), (''Method'', ''-'', method),
                                  (''URL'', ''-'', url), (''User-Agent'', ''-'', agent)].
                 (k \<notin> set (columns ?df) \<longrightarrow> v = d)
               \<and> (k \<in> set (columns ?df) \<longrightarrow>
                    (\<forall>s. cell_of (columns ?df) (rows ?df ! i) k = CStr s \<longrightarrow> v = s)
                  \<and> (cell_of (columns ?df) (rows ?df ! i) k = NaN \<longrightarrow> v = ''nan'')))"
    by blast
  have l2: "length cards = 2" using l by simp
  have c0: "cards ! 0 =
         [Error ''Suspicious request'', Write ''**Reason:** sqli'', Write ''**Impact:** -'',
          Write ''**Suggested Action:** -'', Caption ''Method: - | URL: /login | User-Agent: -'',
          Write ''---'']"
    using c [rule_format, of 0] l2 by (auto simp: cell_of_def)
  have c1: "cards ! 1 =
         [Error ''Suspicious request'', Write ''**Reason:** xss'', Write ''**Impact:** -'',
          Write ''**Suggested Action:** -'', Caption ''Method: - | URL: nan | User-Agent: -'',
          Write ''---'']"
    using c [rule_format, of 1] l2 by (auto simp: cell_of_def)
  from p l2 c0 c1 show ?thesis by blast
qed

text \<open>
  Numbers in a row. A count of 3 beside a column with an empty cell is a float in the
  row and prints as 3.0; beside a column of text it stays an integer, unless its own
  column has an empty cell.
\<close>

lemma alert_number_upcast:
  "sample_alerts \<lparr>columns = [''impact'', ''URL''], rows = [[CInt 3, NaN]]\<rparr> =
     ([Subheader ''Sample Alerts (Top 5)'',
       Error ''Suspicious request'',
       Write ''**Reason:** -'',
       Write ''**Impact:** 3.0'',
       Write ''**Suggested Action:** -'',
       Caption ''Method: - | URL: nan | User-Agent: -'',
       Write ''---''],
      Finished)"
  by (simp add: sample_alerts_def empty_def alert_card_def row_get_def cell_of_def str_as_def
        str_float_def float_row_def float_col_def text_col_def column_def)

lemma alert_number_beside_text:
  "sample_alerts \<lparr>columns = [''impact'', ''URL''], rows = [[CInt 3, CStr ''/login'']]\<rparr> =
     ([Subheader ''Sample Alerts (Top 5)'',
       Error ''Suspicious request'',
       Write ''**Reason:** -'',
       Write ''**Impact:** 3'',
       Write ''**Suggested Action:** -'',
       Caption ''Method: - | URL: /login | User-Agent: -'',
       Write ''---''],
      Finished)"
  by (simp add: sample_alerts_def empty_def alert_card_def row_get_def cell_of_def str_as_def
        str_float_def float_row_def float_col_def text_col_def column_def)

subsection \<open>Loading and the rest of the run\<close>

text \<open>
  A reader that fails on the path of the full dataset: the run stops after the error
  message, with only the title and caption before it.
\<close>

lemma main_full_load_failure:
  "read_csv full_csv = Inl e \<Longrightarrow>
   main read_csv lib seeds full_csv expl_csv pred_csv =
     ([Title ''MSME Cybersecurity Insights'',
       Caption ''Business-friendly security insights based on anomaly detection + GenAI explanations'',
       Error ''Could not load full dataset.''],
      Stopped)"
  by (simp add: main_def load_csv_def app_def header_def validate_def empty_def pd_DataFrame_def
        split: sum.splits)

subsection \<open>Insights\<close>

text \<open>
  The script's own part of the peak: among the hourly buckets the library hands back,
  \<^verbatim>\<open>idxmax\<close> names one that holds the largest count, and with no bucket at all the
  line is skipped.
\<close>

lemma best_from_mem: "best_from b r \<in> set (b # r)"
  by (induction r arbitrary: b) auto

lemma best_from_max: "x \<in> set (b # r) \<Longrightarrow> snd x \<le> snd (best_from b r)"
proof (induction r arbitrary: b x)
  case Nil
  then show ?case by simp
next
  case (Cons y r)
  let ?b = "if snd y > snd b then y else b"
  have b: "snd b \<le> snd (best_from ?b r)" and y: "snd y \<le> snd (best_from ?b r)"
    using Cons.IH [of ?b ?b] Cons.IH [of b ?b] Cons.IH [of y ?b]
    by (auto split: if_splits intro: order_trans less_imp_le)
  from Cons.prems consider "x = b" | "x = y" | "x \<in> set r" by auto
  then show ?case
    using b y Cons.IH [of x ?b] by cases auto
qed

lemma idxmax_largest:
  "hourly \<noteq> [] \<Longrightarrow>
   \<exists>t n. idxmax hourly = Inr t \<and> (t, n) \<in> set hourly \<and> list_all (\<lambda>x. snd x \<le> n) hourly"
proof -
  assume "hourly \<noteq> []"
  then obtain x r where h: "hourly = x # r" by (cases hourly) auto
  have "idxmax hourly = Inr (fst (best_from x r))" by (simp add: idxmax_def h)
  moreover have "(fst (best_from x r), snd (best_from x r)) \<in> set hourly"
    using best_from_mem [of x r] by (simp add: h)
  moreover have "list_all (\<lambda>y. snd y \<le> snd (best_from x r)) hourly"
    unfolding list_all_iff h using best_from_max [of _ x r] by blast
  ultimately show ?thesis by blast
qed

lemma peak_counts_3_and_7:
  "''timestamp'' \<in> set (columns df) \<Longrightarrow>
   resample_size lib (to_datetime lib (map (\<lambda>r. cell_of (columns df) r ''timestamp'') (rows df)))
     = Inr [(h1, 3), (h2, 7)] \<Longrightarrow>
   peak lib df = ([Write (''Peak suspicious activity at: **'' @ strftime lib h2 @ ''**'')], Finished)"
  by (simp add: peak_def getitem_def idxmax_def)

lemma peak_no_bucket:
  "''timestamp'' \<in> set (columns df) \<Longrightarrow>
   resample_size lib (to_datetime lib (map (\<lambda>r. cell_of (columns df) r ''timestamp'') (rows df)))
     = Inr [] \<Longrightarrow>
   peak lib df = ([], Finished)"
  by (simp add: peak_def getitem_def)

text \<open>
  The frequency table lists each value once, with the number of times it occurs.
\<close>

lemma bump_fst: "map fst (bump c t) = (if c \<in> fst ` set t then map fst t else map fst t @ [c])"
  by (induction t) (auto split: if_splits)

lemma bump_distinct: "distinct (map fst t) \<Longrightarrow> distinct (map fst (bump c t))"
  by (simp add: bump_fst)

lemma bump_lookup:
  "map_of (bump c t) d =
     (if d = c then Some (case map_of t c of None \<Rightarrow> 1 | Some n \<Rightarrow> Suc n) else map_of t d)"
  by (induction t) auto

lemma foldl_bump:
  "distinct (map fst t) \<Longrightarrow>
   distinct (map fst (foldl (\<lambda>acc c. bump c acc) t s)) \<and>
   (\<forall>d. map_of (foldl (\<lambda>acc c. bump c acc) t s) d =
         (if d \<in> set s
          then Some (count_list s d + (case map_of t d of None \<Rightarrow> 0 | Some n \<Rightarrow> n))
          else map_of t d))"
proof (induction s arbitrary: t)
  case Nil
  then show ?case by simp
next
  case (Cons c s)
  have d: "distinct (map fst (bump c t))" using Cons.prems by (rule bump_distinct)
  show ?case
    using Cons.IH [OF d] Cons.prems
    by (auto simp: bump_lookup split: option.splits)
qed

lemma counts_count:
  "distinct (map fst (counts s)) \<and>
   (\<forall>c. map_of (counts s) c = (if c \<in> set s \<and> c \<noteq> NaN then Some (count_list s c) else None))"
proof -
  have c: "\<And>c. c \<noteq> NaN \<Longrightarrow> count_list (filter (\<lambda>c. c \<noteq> NaN) s) c = count_list s c"
    by (induction s) auto
  from foldl_bump [of "[]" "filter (\<lambda>c. c \<noteq> NaN) s"] c
  show ?thesis by (auto simp: counts_def)
qed

text \<open>
  With a sort that keeps equal counts in the order it finds them, the specification's
  example gives x, y, z.
\<close>

lemma top3_example_stable_sort:
  "top3 (lib\<lparr>sort_values := sort_key (\<lambda>p. - int (snd p))\<rparr>)
        [CStr ''x'', CStr ''x'', CStr ''y'', CStr ''y'', CStr ''z''] =
     [CStr ''x'', CStr ''y'', CStr ''z'']"
  by (simp add: top3_def counts_def)

text \<open>
  A \<^verbatim>\<open>reasons\<close> column of numbers: joining the top values raises TypeError (the
  line for \<^verbatim>\<open>host\<close> converts with \<^verbatim>\<open>str\<close> first and does not).
\<close>

lemma top_threats_not_text:
  "top_threats (lib\<lparr>sort_values := (\<lambda>t. t)\<rparr>) \<lparr>columns = [''reasons''], rows = [[CInt 403]]\<rparr> =
     ([], Raised TypeError)"
  by (simp add: top_threats_def getitem_def cell_of_def top3_def counts_def join_def)

text \<open>
  A \<^verbatim>\<open>host\<close> column of numbers with an empty cell is a column of floats, and its values
  print as floats; without the empty cell they print as integers.
\<close>

lemma top_ips_float_column:
  "top_ips (lib\<lparr>sort_values := (\<lambda>t. t)\<rparr>) \<lparr>columns = [''host''], rows = [[CInt 10], [NaN]]\<rparr> =
     ([Write ''Top suspicious sources: **10.0**''], Finished)"
  by (simp add: top_ips_def getitem_def cell_of_def top3_def counts_def str_as_def str_float_def
        float_col_def text_col_def column_def)

lemma top_ips_integer_column:
  "top_ips (lib\<lparr>sort_values := (\<lambda>t. t)\<rparr>) \<lparr>columns = [''host''], rows = [[CInt 10], [CInt 10]]\<rparr> =
     ([Write ''Top suspicious sources: **10**''], Finished)"
  by (simp add: top_ips_def getitem_def cell_of_def top3_def counts_def str_as_def str_float_def
        float_col_def text_col_def column_def)

subsection \<open>Text labels\<close>

text \<open>
  One row of two different text labels: no trend line is fitted, and the matrix has its
  two rows and columns, the labels in alphabetical order.
\<close>

lemma heatmap_one_row_of_text:
  "heatmap [(CStr ''b'', CStr ''a'')] =
     Inr (Heatmap [''Actual Normal'', ''Actual Attack''] [''Pred Normal'', ''Pred Attack''] [[0, 0], [1, 0]])"
  by (simp add: heatmap_def confusion_matrix_def count_matrix_def unique_labels_def cm_df_def Let_def
        less_eq_char_def less_char_def)

end
